theory Spec2Isabelle
  imports Main "HOL-Library.Sublist"
begin

section \<open>Data model\<close>

text \<open>
  The request service of the backend (the part \<^verbatim>\<open>request.service.ts\<close> of
  \<^verbatim>\<open>src/backend/src/app.module.ts\<close>) works on three entities. Strings are \<^typ>\<open>string\<close>, instants are epoch milliseconds
  (\<^typ>\<open>int\<close>), a nullable column or relation is an \<^typ>\<open>'a option\<close>.
\<close>

datatype RequestStatus = PENDING | PROCESSING | COMPLETED | REJECTED

text \<open>
  Modelled from the spec: the user entity (\<^verbatim>\<open>users/user.entity.ts\<close> is not among
  the sources). The fields are the ones the service reads.
\<close>

record User =
  user_id :: string
  user_name :: string
  street :: string
  house_number :: string
  complement :: "string option"
  neighborhood :: string
  city :: string
  state :: string
  postal_code :: string
  rg :: string
  cpf :: string
  issuing_agency :: string
  is_admin :: bool

text \<open>
  Modelled from the spec: the declaration template entity (the declaration module is
  not among the sources).
\<close>

record Declaration =
  decl_id :: string
  decl_type :: string
  title :: string
  content :: string
  footer :: string

text \<open>
  Modelled from the spec: the request entity (\<^verbatim>\<open>request/request.entity.ts\<close> is not
  among the sources). The owning user is optional because \<^verbatim>\<open>createRequest\<close> stores
  whatever the identity lookup returned.
\<close>

record Request =
  req_id :: string
  req_user :: "User option"
  req_declaration :: Declaration
  req_status :: RequestStatus
  req_createdAt :: int
  req_generation_date :: "int option"
  req_url :: "string option"
  req_attendant :: "User option"

text \<open>The interface \<^verbatim>\<open>FormatRequestType\<close>; an absent optional property is \<^const>\<open>None\<close>.\<close>

record FormatRequestType =
  fr_id :: string
  fr_name :: string
  fr_requestDate :: int
  fr_status :: RequestStatus
  fr_url :: "string option"
  fr_generationDate :: "int option"

text \<open>
  What a call can throw: the two Nest exceptions the service raises, with their
  messages, and the \<^verbatim>\<open>TypeError\<close> of a property read on \<^verbatim>\<open>null\<close>.
\<close>

datatype error = ForbiddenException string | ConflictException string | TypeError

section \<open>Postal codes\<close>

definition is_digit :: "char \<Rightarrow> bool" where
  "is_digit c = (c \<in> set ''0123456789'')"

definition padStart :: "nat \<Rightarrow> char \<Rightarrow> string \<Rightarrow> string" where
  "padStart n c s = replicate (n - length s) c @ s"

text \<open>
  \<^verbatim>\<open>formatCep\<close>: \<^verbatim>\<open>cep.replace(/\D/g, '')\<close>, \<^verbatim>\<open>padStart(8, '0')\<close>, then
  \<^verbatim>\<open>slice(0, 5)\<close>, a hyphen and \<^verbatim>\<open>slice(5)\<close>.
\<close>

definition formatCep :: "string \<Rightarrow> string" where
  "formatCep cep =
     (let sanitizedCep = filter is_digit cep;
          paddedCep = padStart 8 (CHR ''0'') sanitizedCep
      in take 5 paddedCep @ ''-'' @ drop 5 paddedCep)"

section \<open>Placeholder rendering\<close>

text \<open>
  \<^verbatim>\<open>String.prototype.replace\<close> with a string as replacement expands the patterns
  \<^verbatim>\<open>$$\<close> (a dollar sign), \<^verbatim>\<open>$&\<close> (the matched text), \<^verbatim>\<open>$`\<close> (the text before
  the match) and \<^verbatim>\<open>$'\<close> (the text after it). The regular expressions built here have
  no capture group, so \<^verbatim>\<open>$1\<close> and the like stay as they are.
\<close>

fun expandReplacement :: "string \<Rightarrow> string \<Rightarrow> string \<Rightarrow> string \<Rightarrow> string" where
  "expandReplacement matched pre post [] = []"
| "expandReplacement matched pre post [c] = [c]"
| "expandReplacement matched pre post (c # d # r) =
     (if c = CHR ''$'' \<and> d = CHR ''$'' then CHR ''$'' # expandReplacement matched pre post r
      else if c = CHR ''$'' \<and> d = CHR ''&'' then matched @ expandReplacement matched pre post r
      else if c = CHR ''$'' \<and> d = CHR 0x60 then pre @ expandReplacement matched pre post r
      else if c = CHR ''$'' \<and> d = CHR 0x27 then post @ expandReplacement matched pre post r
      else c # expandReplacement matched pre post (d # r))"

text \<open>
  A global replace of the literal text \<open>pat\<close>: the matches are found from left to
  right and do not overlap. \<open>pre\<close> is the part of the subject already passed and
  \<open>skip\<close> counts the characters of the current match still to be passed.
\<close>

fun replaceAll_from :: "string \<Rightarrow> string \<Rightarrow> string \<Rightarrow> nat \<Rightarrow> string \<Rightarrow> string" where
  "replaceAll_from pat repl pre skip [] = []"
| "replaceAll_from pat repl pre skip (c # cs) =
     (if 0 < skip then replaceAll_from pat repl (pre @ [c]) (skip - 1) cs
      else if pat \<noteq> [] \<and> take (length pat) (c # cs) = pat
      then expandReplacement pat pre (drop (length pat) (c # cs)) repl
             @ replaceAll_from pat repl (pre @ [c]) (length pat - 1) cs
      else c # replaceAll_from pat repl (pre @ [c]) 0 cs)"

definition replaceAll :: "string \<Rightarrow> string \<Rightarrow> string \<Rightarrow> string" where
  "replaceAll pat repl s = replaceAll_from pat repl [] 0 s"

text \<open>
  \<^verbatim>\<open>replacePlaceholders\<close>: a \<^verbatim>\<open>reduce\<close> over \<^verbatim>\<open>Object.entries(data)\<close>, here the list of
  the entries in that order, each step replacing every match of
  \<^verbatim>\<open>new RegExp(`{{${key}}}`, 'g')\<close> in the result so far. For a key of letters, digits
  and underscores, as all the keys the service passes are, the expression matches the
  literal text \<^verbatim>\<open>{{key}}\<close>.
\<close>

definition replacePlaceholders :: "string \<Rightarrow> (string \<times> string) list \<Rightarrow> string" where
  "replacePlaceholders template data =
     foldl (\<lambda>result (key, value). replaceAll (''{{'' @ key @ ''}}'') value result) template data"










section \<open>The stores and the environment\<close>

text \<open>
  Every call of the request repository is logged, so that a theorem can say that an
  operation did not touch the repository at all.
\<close>

datatype repo_call =
  Find | FindRecent | FindOne_id string | FindOne_pending string string | Update string | Save

record world =
  users :: "User list"
  declarations :: "Declaration list"
  requests :: "Request list"
  calls :: "repo_call list"
  ticks :: nat

text \<open>
  What the service does not compute itself: the system clock (the instant of the n-th
  reading), the primary key the database generates for a new row, the date formatting of
  \<^verbatim>\<open>date-fns\<close>, the directory of the temporary files, the bytes read back from the
  file PDFKit wrote (\<^const>\<open>None\<close> when the stream or the read fails) and the upload
  to the storage (\<^const>\<open>None\<close> when it fails, the signed URL otherwise).
\<close>

record Env =
  clock :: "nat \<Rightarrow> int"
  new_id :: "Request list \<Rightarrow> string"
  formatDate :: "int \<Rightarrow> string"
  tmpDir :: string
  pdf_bytes :: "string \<Rightarrow> Declaration \<Rightarrow> string \<Rightarrow> string \<Rightarrow> string option"
  uploadStorage :: "string \<Rightarrow> string \<Rightarrow> string \<Rightarrow> string \<Rightarrow> string option"

definition read_clock :: "Env \<Rightarrow> world \<Rightarrow> int \<times> world" where
  "read_clock e w = (clock e (ticks w), w\<lparr>ticks := Suc (ticks w)\<rparr>)"

fun nat_toString :: "nat \<Rightarrow> string" where
  "nat_toString n =
     (if n < 10 then [''0123456789'' ! n]
      else nat_toString (n div 10) @ [''0123456789'' ! (n mod 10)])"

declare nat_toString.simps [simp del]

definition toString :: "int \<Rightarrow> string" where
  "toString i = (if i < 0 then ''-'' @ nat_toString (nat (- i)) else nat_toString (nat i))"

definition path_join :: "string \<Rightarrow> string \<Rightarrow> string" where
  "path_join dir file = dir @ ''/'' @ file"

text \<open>
  Modelled from the spec: \<^verbatim>\<open>UsersService.findById\<close> and
  \<^verbatim>\<open>DeclarationService.findById\<close> (their modules are not among the sources) return the
  entity with the given id, or nothing.
\<close>

definition usersService_findById :: "string \<Rightarrow> world \<Rightarrow> User option" where
  "usersService_findById userId w = find (\<lambda>u. user_id u = userId) (users w)"

definition declarationService_findById :: "string \<Rightarrow> world \<Rightarrow> Declaration option" where
  "declarationService_findById declarationId w =
     find (\<lambda>d. decl_id d = declarationId) (declarations w)"

text \<open>
  The repository: \<^verbatim>\<open>find\<close> with a descending order, \<^verbatim>\<open>findOne\<close> (the first row that
  matches), \<^verbatim>\<open>update\<close> by id (every row with that id) and \<^verbatim>\<open>save\<close> of a new row.
\<close>

definition order_desc :: "('a \<Rightarrow> int) \<Rightarrow> 'a list \<Rightarrow> 'a list" where
  "order_desc key xs = rev (sort_key key xs)"

definition repo_find :: "world \<Rightarrow> Request list \<times> world" where
  "repo_find w = (order_desc req_createdAt (requests w), w\<lparr>calls := calls w @ [Find]\<rparr>)"

definition generation_date_or :: "int \<Rightarrow> Request \<Rightarrow> int" where
  "generation_date_or d r = (case req_generation_date r of None \<Rightarrow> d | Some t \<Rightarrow> t)"

definition repo_find_recent :: "int \<Rightarrow> world \<Rightarrow> Request list \<times> world" where
  "repo_find_recent since w =
     (order_desc (generation_date_or 0)
        (filter (\<lambda>r. req_url r \<noteq> None \<and>
                      (case req_generation_date r of None \<Rightarrow> False | Some t \<Rightarrow> since < t))
           (requests w)),
      w\<lparr>calls := calls w @ [FindRecent]\<rparr>)"

definition repo_update :: "string \<Rightarrow> (Request \<Rightarrow> Request) \<Rightarrow> world \<Rightarrow> world" where
  "repo_update requestId f w =
     w\<lparr>requests := map (\<lambda>r. if req_id r = requestId then f r else r) (requests w),
       calls := calls w @ [Update requestId]\<rparr>"

definition repo_save :: "Request \<Rightarrow> world \<Rightarrow> world" where
  "repo_save r w = w\<lparr>requests := requests w @ [r], calls := calls w @ [Save]\<rparr>"

text \<open>
  Modelled from the spec: the column defaults of the request entity, which is not among
  the sources. A new request has status PENDING and no URL, generation timestamp or
  attendant.
\<close>

definition repo_create :: "string \<Rightarrow> int \<Rightarrow> User option \<Rightarrow> Declaration \<Rightarrow> Request" where
  "repo_create new_key created user declaration =
     \<lparr>req_id = new_key, req_user = user, req_declaration = declaration,
      req_status = PENDING, req_createdAt = created, req_generation_date = None,
      req_url = None, req_attendant = None\<rparr>"

section \<open>The request service\<close>

fun map_throwing :: "('a \<Rightarrow> error + 'b) \<Rightarrow> 'a list \<Rightarrow> error + 'b list" where
  "map_throwing f [] = Inr []"
| "map_throwing f (x # xs) =
     (case f x of
        Inl e \<Rightarrow> Inl e
      | Inr y \<Rightarrow> (case map_throwing f xs of Inl e \<Rightarrow> Inl e | Inr ys \<Rightarrow> Inr (y # ys)))"

text \<open>
  The object literals the service returns. Reading \<^verbatim>\<open>request.user.name\<close> of a request
  without user throws.
\<close>

definition format_plain :: "Request \<Rightarrow> error + FormatRequestType" where
  "format_plain request =
     (case req_user request of
        None \<Rightarrow> Inl TypeError
      | Some u \<Rightarrow>
          Inr \<lparr>fr_id = req_id request, fr_name = user_name u,
               fr_requestDate = req_createdAt request, fr_status = req_status request,
               fr_url = None, fr_generationDate = None\<rparr>)"

definition format_with_declaration :: "Request \<Rightarrow> error + FormatRequestType" where
  "format_with_declaration request =
     (case req_user request of
        None \<Rightarrow> Inl TypeError
      | Some u \<Rightarrow>
          Inr \<lparr>fr_id = req_id request, fr_name = user_name u,
               fr_requestDate = req_createdAt request, fr_status = req_status request,
               fr_url = req_url request, fr_generationDate = req_generation_date request\<rparr>)"

definition format_generated :: "string \<Rightarrow> Request \<Rightarrow> error + FormatRequestType" where
  "format_generated requestId updatedRequest =
     (case req_user updatedRequest of
        None \<Rightarrow> Inl TypeError
      | Some u \<Rightarrow>
          Inr \<lparr>fr_id = requestId, fr_name = user_name u,
               fr_requestDate = req_createdAt updatedRequest,
               fr_status = req_status updatedRequest,
               fr_url = req_url updatedRequest, fr_generationDate = None\<rparr>)"

definition format_updated :: "string \<Rightarrow> Request \<Rightarrow> error + FormatRequestType" where
  "format_updated requestId updatedRequest =
     (case req_user updatedRequest of
        None \<Rightarrow> Inl TypeError
      | Some u \<Rightarrow>
          Inr \<lparr>fr_id = requestId, fr_name = user_name u,
               fr_requestDate = req_createdAt updatedRequest,
               fr_status = req_status updatedRequest,
               fr_url = None, fr_generationDate = None\<rparr>)"

text \<open>
  The guard \<^verbatim>\<open>user && !user.is_admin\<close> of the four operations for admins: a caller
  without profile passes it. In \<^verbatim>\<open>getRequestsWithDeclarations\<close> the seven days before now
  are taken as seven times 24 hours.
\<close>

definition not_admin_guard :: "User option \<Rightarrow> bool" where
  "not_admin_guard user = (case user of None \<Rightarrow> False | Some u \<Rightarrow> \<not> is_admin u)"

text \<open>The guard \<^verbatim>\<open>user && user.is_admin\<close> of the two operations for non-admins.\<close>

definition admin_guard :: "User option \<Rightarrow> bool" where
  "admin_guard user = (case user of None \<Rightarrow> False | Some u \<Rightarrow> is_admin u)"

definition getRequests :: "string \<Rightarrow> world \<Rightarrow> (error + FormatRequestType list) \<times> world" where
  "getRequests userId w =
     (let user = usersService_findById userId w in
      if not_admin_guard user
      then (Inl (ForbiddenException ''You do not have permission to perform this action.''), w)
      else (let (found, w1) = repo_find w in (map_throwing format_plain found, w1)))"

definition getRequestsWithDeclarations ::
    "Env \<Rightarrow> string \<Rightarrow> world \<Rightarrow> (error + FormatRequestType list) \<times> world" where
  "getRequestsWithDeclarations e userId w =
     (let user = usersService_findById userId w in
      if not_admin_guard user
      then (Inl (ForbiddenException ''You do not have permission to perform this action.''), w)
      else (let (now, w1) = read_clock e w;
                sevenDaysAgo = now - 7 * 86400000;
                (found, w2) = repo_find_recent sevenDaysAgo w1
            in (map_throwing format_with_declaration found, w2)))"

definition getRequestById :: "string \<Rightarrow> world \<Rightarrow> Request option \<times> world" where
  "getRequestById requestId w =
     (find (\<lambda>r. req_id r = requestId) (requests w),
      w\<lparr>calls := calls w @ [FindOne_id requestId]\<rparr>)"

definition pending_of :: "string \<Rightarrow> string \<Rightarrow> Request \<Rightarrow> bool" where
  "pending_of userId declarationId r =
     ((case req_user r of None \<Rightarrow> False | Some u \<Rightarrow> user_id u = userId) \<and>
      decl_id (req_declaration r) = declarationId \<and> req_status r = PENDING)"

definition checkForPendingRequests :: "string \<Rightarrow> string \<Rightarrow> world \<Rightarrow> bool \<times> world" where
  "checkForPendingRequests userId declarationId w =
     (let pendingRequest = find (pending_of userId declarationId) (requests w)
      in (pendingRequest \<noteq> None,
          w\<lparr>calls := calls w @ [FindOne_pending userId declarationId]\<rparr>))"

definition createRequest :: "Env \<Rightarrow> string \<Rightarrow> string \<Rightarrow> world \<Rightarrow> (error + Request) \<times> world" where
  "createRequest e declarationId userId w =
     (let user = usersService_findById userId w in
      if admin_guard user
      then (Inl (ForbiddenException ''You do not have permission to perform this action. 4''), w)
      else
        (case declarationService_findById declarationId w of
           None \<Rightarrow> (Inl (ForbiddenException ''Declaration not found.''), w)
         | Some declaration \<Rightarrow>
             (let (hasPendingRequest, w1) = checkForPendingRequests userId declarationId w in
              if hasPendingRequest
              then (Inl (ConflictException
                      ''You already have a pending request. Please wait for its completion before requesting again.''),
                    w1)
              else (let (created, w2) = read_clock e w1;
                        request = repo_create (new_id e (requests w2)) created user declaration
                    in (Inr request, repo_save request w2)))))"

text \<open>
  The loop of \<^verbatim>\<open>updateStatus\<close>. \<^verbatim>\<open>requestData.status\<close> on the \<^verbatim>\<open>null\<close> that
  \<^verbatim>\<open>getRequestById\<close> returns for an unknown id throws, and so ends the whole call.
\<close>

definition completedStatus :: "RequestStatus list" where
  "completedStatus = [COMPLETED, REJECTED]"

fun updateStatus_loop ::
    "RequestStatus \<Rightarrow> string list \<Rightarrow> FormatRequestType list \<Rightarrow> world
       \<Rightarrow> (error + FormatRequestType list) \<times> world" where
  "updateStatus_loop status [] requests_acc w = (Inr requests_acc, w)"
| "updateStatus_loop status (requestId # requestIds) requests_acc w =
     (let (requestData, w1) = getRequestById requestId w in
      case requestData of
        None \<Rightarrow> (Inl TypeError, w1)
      | Some rd \<Rightarrow>
          if req_status rd \<in> set completedStatus \<or>
             (status \<in> set completedStatus \<and> req_status rd \<noteq> PROCESSING)
          then updateStatus_loop status requestIds requests_acc w1
          else
            (let w2 = repo_update requestId (\<lambda>r. r\<lparr>req_status := status\<rparr>) w1;
                 (updatedRequest, w3) = getRequestById requestId w2
             in case updatedRequest of
                  None \<Rightarrow> (Inl TypeError, w3)
                | Some ur \<Rightarrow>
                    (case format_updated requestId ur of
                       Inl err \<Rightarrow> (Inl err, w3)
                     | Inr view \<Rightarrow>
                         updateStatus_loop status requestIds (requests_acc @ [view]) w3)))"

definition updateStatus ::
    "string \<Rightarrow> RequestStatus \<Rightarrow> string list \<Rightarrow> world
       \<Rightarrow> (error + FormatRequestType list) \<times> world" where
  "updateStatus userId status requestIds w =
     (let user = usersService_findById userId w in
      if not_admin_guard user
      then (Inl (ForbiddenException ''You do not have permission to perform this action.''), w)
      else updateStatus_loop status requestIds [] w)"

text \<open>
  \<^verbatim>\<open>generatePdfFile\<close> resolves with the bytes read back from the file and rejects when
  the stream or the read fails or when the file is empty.
\<close>

definition generatePdfFile ::
    "Env \<Rightarrow> string \<Rightarrow> Declaration \<Rightarrow> string \<Rightarrow> string \<Rightarrow> string option" where
  "generatePdfFile e filePath declaration modifiedContent footerContent =
     (case pdf_bytes e filePath declaration modifiedContent footerContent of
        None \<Rightarrow> None
      | Some fileBuffer \<Rightarrow> if length fileBuffer = 0 then None else Some fileBuffer)"

definition userData :: "Env \<Rightarrow> User \<Rightarrow> int \<Rightarrow> (string \<times> string) list" where
  "userData e u today =
     [(''nome'', user_name u),
      (''rua'', street u),
      (''numero_casa'', house_number u),
      (''complemento'',
         (case complement u of None \<Rightarrow> [] | Some c \<Rightarrow> if c = [] then [] else '' '' @ c)),
      (''bairro'', neighborhood u),
      (''cidade'', city u),
      (''estado'', state u),
      (''cep'', formatCep (postal_code u)),
      (''data_atual'', formatDate e today),
      (''rg'', rg u),
      (''cpf'', cpf u),
      (''orgao_emissor'', issuing_agency u)]"

definition fileName_of :: "string \<Rightarrow> int \<Rightarrow> string" where
  "fileName_of requestId millis = requestId @ ''_'' @ toString millis @ ''.pdf''"

text \<open>
  One round of the loop of \<^verbatim>\<open>generatePdf\<close>, that is the body of its \<^verbatim>\<open>try\<close>: the
  result is the view pushed to the list, or \<^const>\<open>None\<close> after a \<^verbatim>\<open>continue\<close> and
  after an exception, which the \<^verbatim>\<open>catch\<close> only logs. Reading \<^verbatim>\<open>requestData.user.name\<close>
  of a request without user is such an exception, a rejected \<^verbatim>\<open>generatePdfFile\<close> and a
  failed upload are two more. The clock is read three times: for the date in the text, for
  the file name and for the generation date. The temporary file is removed after the
  view is pushed, which changes neither the result nor the requests.
\<close>

definition generatePdf_item ::
    "Env \<Rightarrow> User option \<Rightarrow> string \<Rightarrow> world \<Rightarrow> FormatRequestType option \<times> world" where
  "generatePdf_item e user requestId w =
     (let (requestData, w1) = getRequestById requestId w in
      case requestData of
        None \<Rightarrow> (None, w1)
      | Some rd \<Rightarrow>
          if req_status rd \<noteq> PENDING then (None, w1)
          else
            (case declarationService_findById (decl_id (req_declaration rd)) w1 of
               None \<Rightarrow> (None, w1)
             | Some declaration \<Rightarrow>
                 (case req_user rd of
                    None \<Rightarrow> (None, w1)
                  | Some u \<Rightarrow>
                      (let (today, w2) = read_clock e w1;
                           data = userData e u today;
                           modifiedContent = replacePlaceholders (content declaration) data;
                           footerContent = replacePlaceholders (footer declaration) data;
                           (millis, w3) = read_clock e w2;
                           fileName = fileName_of requestId millis;
                           filePath = path_join (tmpDir e) fileName
                       in case generatePdfFile e filePath declaration modifiedContent footerContent of
                            None \<Rightarrow> (None, w3)
                          | Some fileBuffer \<Rightarrow>
                              (case uploadStorage e ''declaration'' fileName fileBuffer
                                      ''application/pdf'' of
                                 None \<Rightarrow> (None, w3)
                               | Some signedUrl \<Rightarrow>
                                   (let (generated, w4) = read_clock e w3;
                                        w5 = repo_update requestId
                                               (\<lambda>r. r\<lparr>req_url := Some signedUrl,
                                                       req_status := PROCESSING,
                                                       req_generation_date := Some generated,
                                                       req_attendant := user\<rparr>) w4;
                                        (updatedRequest, w6) = getRequestById requestId w5
                                    in case updatedRequest of
                                         None \<Rightarrow> (None, w6)
                                       | Some ur \<Rightarrow>
                                           (case format_generated requestId ur of
                                              Inl err \<Rightarrow> (None, w6)
                                            | Inr view \<Rightarrow> (Some view, w6))))))))"

fun generatePdf_loop ::
    "Env \<Rightarrow> User option \<Rightarrow> string list \<Rightarrow> FormatRequestType list \<Rightarrow> world
       \<Rightarrow> FormatRequestType list \<times> world" where
  "generatePdf_loop e user [] requests_acc w = (requests_acc, w)"
| "generatePdf_loop e user (requestId # requestIds) requests_acc w =
     (case generatePdf_item e user requestId w of
        (None, w1) \<Rightarrow> generatePdf_loop e user requestIds requests_acc w1
      | (Some view, w1) \<Rightarrow> generatePdf_loop e user requestIds (requests_acc @ [view]) w1)"

definition generatePdf ::
    "Env \<Rightarrow> string \<Rightarrow> string list \<Rightarrow> world \<Rightarrow> (error + FormatRequestType list) \<times> world" where
  "generatePdf e userId requestIds w =
     (let user = usersService_findById userId w in
      if not_admin_guard user
      then (Inl (ForbiddenException ''You do not have permission to perform this action''), w)
      else (let (views, w1) = generatePdf_loop e user requestIds [] w in (Inr views, w1)))"

section \<open>Properties of the stored requests\<close>

text \<open>
  The invariant on one request: a pending request has neither URL nor generation
  timestamp, and a request with a URL is not pending.
\<close>

definition request_invariant :: "Request \<Rightarrow> bool" where
  "request_invariant r =
     ((req_status r = PENDING \<longrightarrow> req_url r = None \<and> req_generation_date r = None) \<and>
      (req_url r \<noteq> None \<longrightarrow> req_status r \<noteq> PENDING))"

text \<open>
  The states reached from an empty table of requests by \<^verbatim>\<open>createRequest\<close>,
  \<^verbatim>\<open>updateStatus\<close> and \<^verbatim>\<open>generatePdf\<close>, with any caller, arguments and environment.
\<close>

inductive reachable :: "world \<Rightarrow> bool" where
  reachable_init: "requests w = [] \<Longrightarrow> reachable w"
| reachable_create: "reachable w \<Longrightarrow> reachable (snd (createRequest e declarationId userId w))"
| reachable_update: "reachable w \<Longrightarrow> reachable (snd (updateStatus userId status requestIds w))"
| reachable_generate: "reachable w \<Longrightarrow> reachable (snd (generatePdf e userId requestIds w))"

text \<open>The same, where \<^verbatim>\<open>updateStatus\<close> is never called with the target PENDING.\<close>

inductive reachable_forward :: "world \<Rightarrow> bool" where
  forward_init: "requests w = [] \<Longrightarrow> reachable_forward w"
| forward_create:
    "reachable_forward w \<Longrightarrow> reachable_forward (snd (createRequest e declarationId userId w))"
| forward_update:
    "reachable_forward w \<Longrightarrow> status \<noteq> PENDING \<Longrightarrow>
     reachable_forward (snd (updateStatus userId status requestIds w))"
| forward_generate:
    "reachable_forward w \<Longrightarrow> reachable_forward (snd (generatePdf e userId requestIds w))"


text \<open>
  The rule for \<^verbatim>\<open>updateStatus\<close> in the words of the specification: a request is
  skipped when its status is terminal (COMPLETED or REJECTED), or when the target is
  terminal and the status is not PROCESSING; every other request among the given ids
  gets the target status, and its view after the update is returned.
\<close>

definition spec_skips :: "RequestStatus \<Rightarrow> Request \<Rightarrow> bool" where
  "spec_skips target r =
     ((req_status r = COMPLETED \<or> req_status r = REJECTED) \<or>
      ((target = COMPLETED \<or> target = REJECTED) \<and> req_status r \<noteq> PROCESSING))"

definition spec_update :: "RequestStatus \<Rightarrow> string set \<Rightarrow> Request \<Rightarrow> Request" where
  "spec_update target ids r =
     (if req_id r \<in> ids \<and> \<not> spec_skips target r then r\<lparr>req_status := target\<rparr> else r)"


text \<open>What a successful round of \<^verbatim>\<open>generatePdf\<close> writes into a request.\<close>

definition generated_row :: "User option \<Rightarrow> string \<Rightarrow> int \<Rightarrow> Request \<Rightarrow> Request" where
  "generated_row user signedUrl generated r =
     r\<lparr>req_url := Some signedUrl, req_status := PROCESSING,
       req_generation_date := Some generated, req_attendant := user\<rparr>"



section \<open>An example state\<close>

definition example_user :: User where
  "example_user =
     \<lparr>user_id = ''u1'', user_name = ''Maria'', street = ''Rua A'', house_number = ''10'',
      complement = Some ''ap 2'', neighborhood = ''Centro'', city = ''Recife'', state = ''PE'',
      postal_code = ''50000-000'', rg = ''123'', cpf = ''456'', issuing_agency = ''SSP'',
      is_admin = False\<rparr>"

definition example_admin :: User where
  "example_admin =
     \<lparr>user_id = ''a1'', user_name = ''Ana'', street = ''Rua B'', house_number = ''20'',
      complement = None, neighborhood = ''Centro'', city = ''Recife'', state = ''PE'',
      postal_code = ''50000-001'', rg = ''321'', cpf = ''654'', issuing_agency = ''SSP'',
      is_admin = True\<rparr>"

definition example_declaration :: Declaration where
  "example_declaration =
     \<lparr>decl_id = ''d1'', decl_type = ''Matricula'', title = ''Declaracao'',
      content = ''{{nome}}, {{cidade}}'', footer = ''{{data_atual}}''\<rparr>"

definition example_env :: Env where
  "example_env =
     \<lparr>clock = (\<lambda>n. 1000 + int n),
      new_id = (\<lambda>rows. ''r'' @ nat_toString (length rows)),
      formatDate = (\<lambda>t. ''01 de janeiro de 2025''),
      tmpDir = ''tmp'',
      pdf_bytes = (\<lambda>filePath declaration body foot. Some (''%PDF'' @ body @ foot)),
      uploadStorage =
        (\<lambda>bucket fileName buffer contentType. Some (''https://files/'' @ fileName))\<rparr>"


definition example_world :: world where
  "example_world =
     \<lparr>users = [example_user, example_admin], declarations = [example_declaration],
      requests = [], calls = [], ticks = 0\<rparr>"

definition example_request :: "string \<Rightarrow> RequestStatus \<Rightarrow> Request" where
  "example_request requestId status =
     \<lparr>req_id = requestId, req_user = Some example_user, req_declaration = example_declaration,
      req_status = status, req_createdAt = 500, req_generation_date = None,
      req_url = None, req_attendant = None\<rparr>"

text \<open>A state with a pending and a completed request.\<close>

definition example_world2 :: world where
  "example_world2 =
     example_world\<lparr>requests := [example_request ''p1'' PENDING, example_request ''c1'' COMPLETED]\<rparr>"

text \<open>
  A request is created and its document generated; then an admin sets it back to
  PENDING, or completes it.
\<close>

definition example_generated_world :: world where
  "example_generated_world =
     snd (generatePdf example_env ''a1'' [''r0'']
            (snd (createRequest example_env ''d1'' ''u1'' example_world)))"

definition example_reset_world :: world where
  "example_reset_world = snd (updateStatus ''a1'' PENDING [''r0''] example_generated_world)"

definition example_completed_world :: world where
  "example_completed_world = snd (updateStatus ''a1'' COMPLETED [''r0''] example_generated_world)"

section \<open>Postal code normalisation\<close>

lemma padStart_digits:
  "list_all is_digit s \<Longrightarrow> list_all is_digit (padStart 8 (CHR ''0'') s)"
proof -
  have "is_digit (CHR ''0'')"
    by (simp add: is_digit_def)
  then show "list_all is_digit s \<Longrightarrow> list_all is_digit (padStart 8 (CHR ''0'') s)"
    by (auto simp: padStart_def list_all_iff)
qed

lemma padStart_length: "length (padStart n c s) = max n (length s)"
  by (simp add: padStart_def)

text \<open>
  C9, as the claim states it, fails: with nine digits nothing is cut off and the part
  after the hyphen has four digits.
\<close>

theorem formatCep_nine_digits_counterexample:
  "formatCep ''123456789'' = ''12345-6789'' \<and> length (formatCep ''123456789'') \<noteq> 9"
  by (simp add: formatCep_def padStart_def is_digit_def)

lemma formatCep_short:
  assumes le: "length (filter is_digit cep) \<le> 8"
  shows "\<exists>a b. formatCep cep = a @ ''-'' @ b \<and> length a = 5 \<and> length b = 3 \<and>
             list_all is_digit a \<and> list_all is_digit b \<and>
             a @ b = replicate (8 - length (filter is_digit cep)) (CHR ''0'') @ filter is_digit cep"
proof -
  define p where "p = padStart 8 (CHR ''0'') (filter is_digit cep)"
  have digits: "list_all is_digit p"
    unfolding p_def by (rule padStart_digits) (simp add: list_all_iff)
  have len: "length p = 8"
    using le by (simp add: p_def padStart_length)
  have a: "list_all is_digit (take 5 p)"
    using digits by (auto simp: list_all_iff dest: in_set_takeD)
  have b: "list_all is_digit (drop 5 p)"
    using digits by (auto simp: list_all_iff dest: in_set_dropD)
  have f: "formatCep cep = take 5 p @ ''-'' @ drop 5 p"
    by (simp add: formatCep_def Let_def p_def)
  have la: "length (take 5 p) = 5" and lb: "length (drop 5 p) = 3"
    using len by simp_all
  have "take 5 p @ drop 5 p = p"
    by (rule append_take_drop_id)
  then have ab: "take 5 p @ drop 5 p = replicate (8 - length (filter is_digit cep)) (CHR ''0'') @ filter is_digit cep"
    by (simp only: p_def padStart_def)
  show ?thesis
    apply (rule exI [of _ "take 5 p"])
    apply (rule exI [of _ "drop 5 p"])
    apply (intro conjI)
    apply (rule f)
    apply (rule la)
    apply (rule lb)
    apply (rule a)
    apply (rule b)
    apply (rule ab)
    done
qed

text \<open>
  C9 (amended). For every input the non-digits are stripped, the digits are left-padded
  with zeros to at least eight and a hyphen is put after the fifth. When the input has
  at most eight digits the result has the form NNNNN-NNN: five digits, a hyphen, three
  digits, which together are the zero-padded digits of the input. With more than eight
  digits nothing is truncated: the result is the first five digits, a hyphen and all
  the remaining digits. The three examples of the claim hold.
\<close>

theorem formatCep_form:
  "(length (filter is_digit cep) \<le> 8 \<longrightarrow>
      (\<exists>a b. formatCep cep = a @ ''-'' @ b \<and> length a = 5 \<and> length b = 3 \<and>
             list_all is_digit a \<and> list_all is_digit b \<and>
             a @ b = replicate (8 - length (filter is_digit cep)) (CHR ''0'') @ filter is_digit cep))
   \<and> (8 < length (filter is_digit cep) \<longrightarrow>
      formatCep cep = take 5 (filter is_digit cep) @ ''-'' @ drop 5 (filter is_digit cep))
   \<and> formatCep ''1234567'' = ''01234-567''
   \<and> formatCep ''01310-100'' = ''01310-100''
   \<and> formatCep ''123'' = ''00000-123''"
proof (intro conjI impI)
  assume "length (filter is_digit cep) \<le> 8"
  then show "\<exists>a b. formatCep cep = a @ ''-'' @ b \<and> length a = 5 \<and> length b = 3 \<and>
             list_all is_digit a \<and> list_all is_digit b \<and>
             a @ b = replicate (8 - length (filter is_digit cep)) (CHR ''0'') @ filter is_digit cep"
    by (rule formatCep_short)
next
  assume "8 < length (filter is_digit cep)"
  then show "formatCep cep = take 5 (filter is_digit cep) @ ''-'' @ drop 5 (filter is_digit cep)"
    by (simp add: formatCep_def padStart_def Let_def)
next
  show "formatCep ''1234567'' = ''01234-567''"
    by (simp add: formatCep_def padStart_def is_digit_def)
next
  show "formatCep ''01310-100'' = ''01310-100''"
    by (simp add: formatCep_def padStart_def is_digit_def)
next
  show "formatCep ''123'' = ''00000-123''"
    by (simp add: formatCep_def padStart_def is_digit_def eval_nat_numeral)
qed

theorem formatCep_form_witness:
  "length (filter is_digit ''01310-100'') \<le> 8 \<and>
   (\<exists>a b. formatCep ''01310-100'' = a @ ''-'' @ b \<and> length a = 5 \<and> length b = 3 \<and>
          list_all is_digit a \<and> list_all is_digit b \<and>
          a @ b = replicate (8 - length (filter is_digit ''01310-100'')) (CHR ''0'')
                    @ filter is_digit ''01310-100'') \<and>
   8 < length (filter is_digit ''12.345.678-9'') \<and>
   formatCep ''12.345.678-9''
     = take 5 (filter is_digit ''12.345.678-9'') @ ''-'' @ drop 5 (filter is_digit ''12.345.678-9'')"
proof -
  have le: "length (filter is_digit ''01310-100'') \<le> 8"
    by (simp add: is_digit_def)
  have gt: "8 < length (filter is_digit ''12.345.678-9'')"
    by (simp add: is_digit_def)
  note short = formatCep_form [of "''01310-100''"]
  note long = formatCep_form [of "''12.345.678-9''"]
  from short have imp: "length (filter is_digit ''01310-100'') \<le> 8 \<longrightarrow>
      (\<exists>a b. formatCep ''01310-100'' = a @ ''-'' @ b \<and> length a = 5 \<and> length b = 3 \<and>
             list_all is_digit a \<and> list_all is_digit b \<and>
             a @ b = replicate (8 - length (filter is_digit ''01310-100'')) (CHR ''0'')
                    @ filter is_digit ''01310-100'')"
    by (rule conjunct1)
  from imp le have ex: "\<exists>a b. formatCep ''01310-100'' = a @ ''-'' @ b \<and> length a = 5 \<and> length b = 3 \<and>
             list_all is_digit a \<and> list_all is_digit b \<and>
             a @ b = replicate (8 - length (filter is_digit ''01310-100'')) (CHR ''0'')
                    @ filter is_digit ''01310-100''"
    by (rule mp)
  from long have "8 < length (filter is_digit ''12.345.678-9'') \<longrightarrow>
      formatCep ''12.345.678-9''
        = take 5 (filter is_digit ''12.345.678-9'') @ ''-'' @ drop 5 (filter is_digit ''12.345.678-9'')"
    by (elim conjE)
  from this gt have nine: "formatCep ''12.345.678-9''
        = take 5 (filter is_digit ''12.345.678-9'') @ ''-'' @ drop 5 (filter is_digit ''12.345.678-9'')"
    by (rule mp)
  from le ex gt nine show ?thesis by (intro conjI)
qed

section \<open>Role checks\<close>

text \<open>
  C2, as the claim states it, fails for a caller id without profile: the guard
  \<^verbatim>\<open>user && !user.is_admin\<close> lets it pass, and \<^verbatim>\<open>updateStatus\<close> then reads and
  changes the requests.
\<close>

theorem admin_only_unknown_caller_counterexample:
  "usersService_findById ''nobody'' example_world2 = None \<and>
   fst (updateStatus ''nobody'' PROCESSING [''p1''] example_world2)
     = Inr [\<lparr>fr_id = ''p1'', fr_name = ''Maria'', fr_requestDate = 500, fr_status = PROCESSING,
             fr_url = None, fr_generationDate = None\<rparr>] \<and>
   requests (snd (updateStatus ''nobody'' PROCESSING [''p1''] example_world2))
     = [example_request ''p1'' PROCESSING, example_request ''c1'' COMPLETED] \<and>
   calls (snd (updateStatus ''nobody'' PROCESSING [''p1''] example_world2))
     = [FindOne_id ''p1'', Update ''p1'', FindOne_id ''p1'']"
  by (simp add: updateStatus_def usersService_findById_def not_admin_guard_def example_world2_def
        example_world_def example_user_def example_admin_def example_request_def
        getRequestById_def repo_update_def format_updated_def completedStatus_def)

text \<open>
  C2 (amended). For every caller id that resolves to a user profile whose
  \<^verbatim>\<open>is_admin\<close> is false, each of the four admin-only operations (\<^verbatim>\<open>getRequests\<close>,
  \<^verbatim>\<open>getRequestsWithDeclarations\<close>, \<^verbatim>\<open>updateStatus\<close>, \<^verbatim>\<open>generatePdf\<close>) throws the
  ForbiddenException and leaves the whole state as it was: no request is changed, no
  call of the repository is logged and the clock is not read.
\<close>

theorem admin_only_denied:
  assumes "usersService_findById userId w = Some u" and "\<not> is_admin u"
  shows "getRequests userId w
           = (Inl (ForbiddenException ''You do not have permission to perform this action.''), w)
       \<and> getRequestsWithDeclarations e userId w
           = (Inl (ForbiddenException ''You do not have permission to perform this action.''), w)
       \<and> updateStatus userId status requestIds w
           = (Inl (ForbiddenException ''You do not have permission to perform this action.''), w)
       \<and> generatePdf e userId requestIds w
           = (Inl (ForbiddenException ''You do not have permission to perform this action''), w)"
  using assms
  by (simp add: getRequests_def getRequestsWithDeclarations_def updateStatus_def generatePdf_def
        not_admin_guard_def)

theorem admin_only_denied_witness:
  "usersService_findById ''u1'' example_world2 = Some example_user \<and>
   \<not> is_admin example_user \<and>
   getRequests ''u1'' example_world2
     = (Inl (ForbiddenException ''You do not have permission to perform this action.''), example_world2) \<and>
   getRequestsWithDeclarations example_env ''u1'' example_world2
     = (Inl (ForbiddenException ''You do not have permission to perform this action.''), example_world2) \<and>
   updateStatus ''u1'' COMPLETED [''p1''] example_world2
     = (Inl (ForbiddenException ''You do not have permission to perform this action.''), example_world2) \<and>
   generatePdf example_env ''u1'' [''p1''] example_world2
     = (Inl (ForbiddenException ''You do not have permission to perform this action''), example_world2)"
proof -
  have found: "usersService_findById ''u1'' example_world2 = Some example_user"
    by (simp add: usersService_findById_def example_world2_def example_world_def example_user_def)
  have plain: "\<not> is_admin example_user"
    by (simp add: example_user_def)
  from admin_only_denied [OF found plain, of example_env COMPLETED "[''p1'']"] found plain
  show ?thesis by simp
qed

text \<open>
  C3. A non-admin caller asks for a declaration that does not exist: no request is created
  and the state is unchanged, but the exception thrown is the ForbiddenException, the
  one of a denied permission, with the message \<^verbatim>\<open>Declaration not found.\<close>
\<close>

theorem createRequest_missing_declaration_is_forbidden:
  "usersService_findById ''u1'' example_world = Some example_user \<and>
   is_admin example_user = False \<and>
   declarationService_findById ''d9'' example_world = None \<and>
   createRequest example_env ''d9'' ''u1'' example_world
     = (Inl (ForbiddenException ''Declaration not found.''), example_world)"
  by (simp add: createRequest_def usersService_findById_def declarationService_findById_def
        admin_guard_def example_world_def example_user_def example_admin_def
        example_declaration_def)

section \<open>How the operations change the requests\<close>

lemma find_after_update:
  assumes "\<And>r. req_id (f r) = req_id r"
  shows "find (\<lambda>r. req_id r = requestId)
           (map (\<lambda>r. if req_id r = requestId then f r else r) rows)
         = map_option f (find (\<lambda>r. req_id r = requestId) rows)"
  using assms by (induction rows) auto

lemma generatePdf_item_None:
  assumes "generatePdf_item e user requestId w = (None, w')"
  shows "requests w' = requests w \<and> users w' = users w \<and> declarations w' = declarations w"
  using assms
  by (auto simp: generatePdf_item_def getRequestById_def read_clock_def repo_update_def Let_def
        format_generated_def find_after_update declarationService_findById_def
      split: option.splits if_splits sum.splits)

lemma generatePdf_item_Some:
  assumes "generatePdf_item e user requestId w = (Some view, w')"
  shows "\<exists>rd u signedUrl generated.
           find (\<lambda>r. req_id r = requestId) (requests w) = Some rd \<and>
           req_status rd = PENDING \<and> req_user rd = Some u \<and>
           requests w' = map (\<lambda>r. if req_id r = requestId
                                    then generated_row user signedUrl generated r else r)
                             (requests w) \<and>
           view = \<lparr>fr_id = requestId, fr_name = user_name u, fr_requestDate = req_createdAt rd,
                   fr_status = PROCESSING, fr_url = Some signedUrl, fr_generationDate = None\<rparr> \<and>
           users w' = users w \<and> declarations w' = declarations w"
  using assms
  by (auto simp: generatePdf_item_def getRequestById_def read_clock_def repo_update_def Let_def
        format_generated_def find_after_update declarationService_findById_def generated_row_def
      split: option.splits if_splits sum.splits)

lemma invariant_after_update:
  assumes "list_all request_invariant (requests w)"
    and "\<And>r. r \<in> set (requests w) \<Longrightarrow> req_id r = requestId \<Longrightarrow> request_invariant (f r)"
  shows "list_all request_invariant (requests (repo_update requestId f w))"
  using assms by (auto simp: repo_update_def list_all_iff)

lemma invariant_status_not_pending:
  "status \<noteq> PENDING \<Longrightarrow> request_invariant (r\<lparr>req_status := status\<rparr>)"
  by (simp add: request_invariant_def)

lemma requests_getRequestById [simp]:
  "requests (snd (getRequestById requestId w)) = requests w"
  by (simp add: getRequestById_def)

lemma updateStatus_loop_invariant:
  assumes "status \<noteq> PENDING"
  shows "list_all request_invariant (requests w) \<Longrightarrow>
         list_all request_invariant (requests (snd (updateStatus_loop status requestIds acc w)))"
proof (induction requestIds arbitrary: acc w)
  case Nil
  then show ?case by simp
next
  case (Cons requestId requestIds)
  obtain rd1 w1 where g1: "getRequestById requestId w = (rd1, w1)"
    by (cases "getRequestById requestId w")
  then have r1: "requests w1 = requests w"
    using requests_getRequestById [of requestId w] by simp
  with Cons.prems have i1: "list_all request_invariant (requests w1)"
    by simp
  define w2 where "w2 = repo_update requestId (\<lambda>r. r\<lparr>req_status := status\<rparr>) w1"
  have i2: "list_all request_invariant (requests w2)"
    unfolding w2_def using i1 assms
    by (intro invariant_after_update) (simp_all add: invariant_status_not_pending)
  obtain rd3 w3 where g3: "getRequestById requestId w2 = (rd3, w3)"
    by (cases "getRequestById requestId w2")
  then have "requests w3 = requests w2"
    using requests_getRequestById [of requestId w2] by simp
  with i2 have i3: "list_all request_invariant (requests w3)"
    by simp
  show ?case
    using g1 g3 i1 i3 Cons.IH [of w1] Cons.IH [of w3]
    by (simp add: w2_def [symmetric] Let_def split: option.splits sum.splits)
qed

lemma generatePdf_loop_invariant:
  "list_all request_invariant (requests w) \<Longrightarrow>
   list_all request_invariant (requests (snd (generatePdf_loop e user requestIds acc w)))"
proof (induction requestIds arbitrary: acc w)
  case Nil
  then show ?case by simp
next
  case (Cons requestId requestIds)
  obtain v w1 where item: "generatePdf_item e user requestId w = (v, w1)"
    by (cases "generatePdf_item e user requestId w")
  have "list_all request_invariant (requests w1)"
  proof (cases v)
    case None
    with item Cons.prems show ?thesis
      by (simp add: generatePdf_item_None)
  next
    case (Some view)
    with item obtain signedUrl generated where
      "requests w1 = map (\<lambda>r. if req_id r = requestId
                                then generated_row user signedUrl generated r else r) (requests w)"
      using generatePdf_item_Some [of e user requestId w view w1] by auto
    with Cons.prems show ?thesis
      by (auto simp: list_all_iff generated_row_def request_invariant_def)
  qed
  then show ?case
    using item Cons.IH [of w1] by (cases v) simp_all
qed

lemma createRequest_invariant:
  "list_all request_invariant (requests w) \<Longrightarrow>
   list_all request_invariant (requests (snd (createRequest e declarationId userId w)))"
  by (auto simp: createRequest_def checkForPendingRequests_def read_clock_def repo_save_def
        repo_create_def request_invariant_def Let_def split: option.splits)

lemma updateStatus_invariant:
  "status \<noteq> PENDING \<Longrightarrow> list_all request_invariant (requests w) \<Longrightarrow>
   list_all request_invariant (requests (snd (updateStatus userId status requestIds w)))"
  by (simp add: updateStatus_def Let_def updateStatus_loop_invariant)

lemma generatePdf_invariant:
  "list_all request_invariant (requests w) \<Longrightarrow>
   list_all request_invariant (requests (snd (generatePdf e userId requestIds w)))"
  using generatePdf_loop_invariant [of w e "usersService_findById userId w" requestIds "[]"]
  by (auto simp: generatePdf_def Let_def split: prod.splits)

text \<open>
  C1 (amended). In every state reached from an empty table by \<^verbatim>\<open>createRequest\<close>,
  \<^verbatim>\<open>generatePdf\<close> and \<^verbatim>\<open>updateStatus\<close> with a target status other than PENDING,
  every request satisfies the invariant: a pending request has neither URL nor generation
  timestamp, and a request with a URL is not pending.
\<close>

theorem invariant_reachable_forward:
  "reachable_forward w \<Longrightarrow> list_all request_invariant (requests w)"
proof (induction rule: reachable_forward.induct)
  case (forward_init w)
  then show ?case by simp
next
  case (forward_create w e declarationId userId)
  then show ?case by (simp add: createRequest_invariant)
next
  case (forward_update w status userId requestIds)
  then show ?case by (simp add: updateStatus_invariant)
next
  case (forward_generate w e userId requestIds)
  then show ?case by (simp add: generatePdf_invariant)
qed

lemma example_reset_rows:
  "map req_status (requests example_reset_world) = [PENDING] \<and>
   map req_url (requests example_reset_world) = [Some ''https://files/r0_1002.pdf'']"
  by code_simp

text \<open>
  C1, as the claim states it, fails: \<^verbatim>\<open>updateStatus\<close> with the target PENDING puts a
  request whose document was generated back to PENDING and keeps its URL.
\<close>

theorem invariant_reset_counterexample:
  "reachable example_reset_world \<and>
   map req_status (requests example_reset_world) = [PENDING] \<and>
   map req_url (requests example_reset_world) = [Some ''https://files/r0_1002.pdf''] \<and>
   \<not> list_all request_invariant (requests example_reset_world)"
proof -
  have "reachable example_world"
    by (rule reachable_init) (simp add: example_world_def)
  then have "reachable (snd (createRequest example_env ''d1'' ''u1'' example_world))"
    by (rule reachable_create)
  then have "reachable example_generated_world"
    unfolding example_generated_world_def by (rule reachable_generate)
  then have reach: "reachable example_reset_world"
    unfolding example_reset_world_def by (rule reachable_update)
  have rows: "map req_status (requests example_reset_world) = [PENDING]"
     "map req_url (requests example_reset_world) = [Some ''https://files/r0_1002.pdf'']"
    using example_reset_rows by simp_all
  then obtain r where r: "requests example_reset_world = [r]"
    by (cases "requests example_reset_world") auto
  with rows have "\<not> request_invariant r"
    by (simp add: request_invariant_def)
  with r reach rows show ?thesis by simp
qed

theorem invariant_reachable_forward_witness:
  "reachable_forward example_completed_world \<and>
   list_all request_invariant (requests example_completed_world) \<and>
   map req_status (requests example_completed_world) = [COMPLETED]"
proof -
  have "reachable_forward example_world"
    by (rule forward_init) (simp add: example_world_def)
  then have "reachable_forward (snd (createRequest example_env ''d1'' ''u1'' example_world))"
    by (rule forward_create)
  then have "reachable_forward example_generated_world"
    unfolding example_generated_world_def by (rule forward_generate)
  then have reach: "reachable_forward example_completed_world"
    unfolding example_completed_world_def by (rule forward_update) simp
  have "map req_status (requests example_completed_world) = [COMPLETED]"
    by code_simp
  with reach invariant_reachable_forward [OF reach] show ?thesis by simp
qed

section \<open>Creating a request\<close>















lemma example_world2_lookups:
  "usersService_findById ''u1'' example_world2 = Some example_user"
  "declarationService_findById ''d1'' example_world2 = Some example_declaration"
  "usersService_findById ''u1'' example_world = Some example_user"
  "declarationService_findById ''d1'' example_world = Some example_declaration"
  "usersService_findById ''a1'' example_world2 = Some example_admin"
  by (simp_all add: usersService_findById_def declarationService_findById_def example_world2_def
        example_world_def example_user_def example_admin_def example_declaration_def)


section \<open>Updating the status\<close>


lemma find_by_id_None:
  "(find (\<lambda>x. req_id x = requestId) rows = None) \<longleftrightarrow> requestId \<notin> req_id ` set rows"
  by (auto simp: find_None_iff)











lemma spec_update_keeps [simp]:
  "req_id (spec_update target ids r) = req_id r"
  "req_user (spec_update target ids r) = req_user r"
  "req_createdAt (spec_update target ids r) = req_createdAt r"
  by (simp_all add: spec_update_def)



lemma updateStatus_loop_append:
  "updateStatus_loop status (pre @ post) acc w =
     (case updateStatus_loop status pre acc w of
        (Inl err, w1) \<Rightarrow> (Inl err, w1)
      | (Inr acc1, w1) \<Rightarrow> updateStatus_loop status post acc1 w1)"
proof (induction pre arbitrary: acc w)
  case Nil
  then show ?case by simp
next
  case (Cons requestId pre)
  show ?case
    by (simp add: Cons.IH Let_def split: prod.splits option.splits sum.splits)
qed

lemma updateStatus_loop_error:
  "updateStatus_loop status requestIds acc w = (Inl err, w') \<Longrightarrow> err = TypeError"
proof (induction requestIds arbitrary: acc w)
  case Nil
  then show ?case by simp
next
  case (Cons requestId requestIds)
  then show ?case
    by (auto simp: Let_def format_updated_def split: prod.splits option.splits sum.splits if_splits)
qed

lemma updateStatus_loop_ids:
  "map req_id (requests (snd (updateStatus_loop status requestIds acc w))) = map req_id (requests w)"
proof (induction requestIds arbitrary: acc w)
  case Nil
  then show ?case by simp
next
  case (Cons requestId requestIds)
  have upd: "\<And>w0. map req_id (requests (repo_update requestId (\<lambda>r. r\<lparr>req_status := status\<rparr>) w0))
               = map req_id (requests w0)"
    by (simp add: repo_update_def comp_def if_distrib [of req_id] cong: if_cong)
  obtain rd1 w1 where g1: "getRequestById requestId w = (rd1, w1)"
    by (cases "getRequestById requestId w")
  then have r1: "requests w1 = requests w"
    using requests_getRequestById [of requestId w] by simp
  define w2 where "w2 = repo_update requestId (\<lambda>r. r\<lparr>req_status := status\<rparr>) w1"
  have r2: "map req_id (requests w2) = map req_id (requests w)"
    unfolding w2_def using upd [of w1] r1 by simp
  obtain rd3 w3 where g3: "getRequestById requestId w2 = (rd3, w3)"
    by (cases "getRequestById requestId w2")
  then have r3: "requests w3 = requests w2"
    using requests_getRequestById [of requestId w2] by simp
  show ?case
    using g1 g3 r1 r2 r3 Cons.IH [of _ w1] Cons.IH [of _ w3]
    by (simp add: w2_def [symmetric] Let_def split: option.splits sum.splits)
qed




text \<open>
  C10. The caller is an admin and one id of the list belongs to no stored request. The
  lookup of this id returns nothing, reading the status of nothing throws, and the whole
  call ends with this TypeError instead of a list: the id is not skipped, and the stored
  requests are the ones left by the ids before it, whatever ids come after it.
\<close>

theorem updateStatus_missing_id_aborts:
  assumes "usersService_findById userId w = Some a" and "is_admin a"
    and "missing \<notin> req_id ` set (requests w)"
  shows "fst (getRequestById missing w) = None \<and>
         (\<exists>w'. updateStatus userId status (pre @ missing # post) w = (Inl TypeError, w') \<and>
               requests w' = requests (snd (updateStatus userId status pre w)))"
proof -
  have guard: "\<not> not_admin_guard (usersService_findById userId w)"
    using assms by (simp add: not_admin_guard_def)
  have none: "fst (getRequestById missing w) = None"
    using assms(3) by (simp add: getRequestById_def find_by_id_None)
  obtain res w1 where pre: "updateStatus_loop status pre [] w = (res, w1)"
    by (cases "updateStatus_loop status pre [] w")
  have ids1: "map req_id (requests w1) = map req_id (requests w)"
    using updateStatus_loop_ids [of status pre "[]" w] pre by simp
  then have "req_id ` set (requests w1) = req_id ` set (requests w)"
    by (metis list.set_map)
  with assms(3) have missing1: "find (\<lambda>r. req_id r = missing) (requests w1) = None"
    by (simp add: find_by_id_None)
  have "\<exists>w'. updateStatus_loop status (pre @ missing # post) [] w = (Inl TypeError, w') \<and>
             requests w' = requests w1"
  proof (cases res)
    case (Inl err)
    with pre have "err = TypeError"
      by (auto dest: updateStatus_loop_error)
    with Inl pre show ?thesis
      by (simp add: updateStatus_loop_append)
  next
    case (Inr acc1)
    with pre missing1 show ?thesis
      by (simp add: updateStatus_loop_append getRequestById_def)
  qed
  with guard pre none show ?thesis
    by (simp add: updateStatus_def)
qed

theorem updateStatus_missing_id_aborts_witness:
  "usersService_findById ''a1'' example_world2 = Some example_admin \<and>
   is_admin example_admin \<and>
   ''zz'' \<notin> req_id ` set (requests example_world2) \<and>
   fst (getRequestById ''zz'' example_world2) = None \<and>
   (\<exists>w'. updateStatus ''a1'' PROCESSING ([''p1''] @ ''zz'' # [''c1'']) example_world2
            = (Inl TypeError, w') \<and>
         requests w' = requests (snd (updateStatus ''a1'' PROCESSING [''p1''] example_world2)))"
proof -
  have admin: "is_admin example_admin"
    by (simp add: example_admin_def)
  have missing: "''zz'' \<notin> req_id ` set (requests example_world2)"
    by (simp add: example_world2_def example_world_def example_request_def)
  from updateStatus_missing_id_aborts
         [OF example_world2_lookups(5) admin missing, of PROCESSING "[''p1'']" "[''c1'']"]
       example_world2_lookups(5) admin missing
  show ?thesis by (intro conjI) simp_all
qed

section \<open>Generating the documents of a batch\<close>

lemma generatePdf_item_skip_status:
  assumes "find (\<lambda>r. req_id r = requestId) (requests w) = Some rd" and "req_status rd \<noteq> PENDING"
  shows "generatePdf_item e user requestId w = (None, w\<lparr>calls := calls w @ [FindOne_id requestId]\<rparr>)"
  using assms by (simp add: generatePdf_item_def getRequestById_def)

lemma generatePdf_item_skip_missing:
  assumes "find (\<lambda>r. req_id r = requestId) (requests w) = None"
  shows "generatePdf_item e user requestId w = (None, w\<lparr>calls := calls w @ [FindOne_id requestId]\<rparr>)"
  using assms by (simp add: generatePdf_item_def getRequestById_def)













section \<open>Rendering the placeholders of a template\<close>

























end
